theory Spec2Isabelle
  imports Main
begin

section \<open>The collection of contexts (collection.go)\<close>

text \<open>
  A \<open>Context\<close> is a Go interface value: either \<open>nil\<close> or a reference to an instance
  living outside this package. Instances are compared by reference
  (\<open>valueInMap != newValue\<close>), so an instance is a number; the identity string an
  instance reports through \<open>GetId()\<close> is the parameter \<open>GetId\<close> of the operations.
\<close>

datatype Context = NilCtx | Ref nat

text \<open>
  A Go slice of strings: \<open>nil\<close>, or a backing array together with a length. The cells
  of the backing array beyond the length are kept, because \<open>append\<close> and the JSON
  decoder write into them and read them back; cells beyond the list are zero.
\<close>

datatype slice = NilSlice | Slice "string list" nat

fun elems :: "slice \<Rightarrow> string list" where
  "elems NilSlice = []"
| "elems (Slice cs n) = take n (cs @ replicate (n - length cs) [])"

fun cells :: "slice \<Rightarrow> string list" where
  "cells NilSlice = []"
| "cells (Slice cs n) = cs"

text \<open>
  \<open>append(a, b...)\<close>: nothing to add returns \<open>a\<close> itself; otherwise the elements of
  \<open>b\<close> are written after the first \<open>len a\<close> cells.
\<close>

definition append :: "slice \<Rightarrow> slice \<Rightarrow> slice" where
  "append a b =
     (if elems b = [] then a
      else Slice (elems a @ elems b @ drop (length (elems a) + length (elems b)) (cells a))
                 (length (elems a) + length (elems b)))"

text \<open>
  The state: the \<open>SdkCollection\<close> object (\<open>contexts\<close>, and its \<open>ConfigTypes\<close> field
  under the name \<open>collConfigTypes\<close>, since \<open>Config\<close> has a field of the same name),
  and what the operations do to the outside: the instances \<open>Close()\<close> was called
  on, in call order, the lines given to the logger, and the state \<open>ext\<close> of the
  collaborators (file system, environment, network).
\<close>

record 'w state =
  contexts :: "string \<rightharpoonup> Context"
  collConfigTypes :: slice
  closed :: "nat list"
  logged :: "string list"
  ext :: 'w

text \<open>\<open>NewSdkCollection\<close>: an empty map, \<open>ConfigTypes\<close> left at its zero value.\<close>

definition NewSdkCollection :: "'w \<Rightarrow> 'w state" where
  "NewSdkCollection w =
     \<lparr>contexts = Map.empty, collConfigTypes = NilSlice, closed = [], logged = [], ext = w\<rparr>"

text \<open>
  The three operations of the concurrent map the collection uses. Each runs under the
  lock of the key's shard: \<open>Upsert\<close> reads the entry, calls the callback with it
  (\<open>exist\<close>, the stored value or the zero value \<open>nil\<close>, the new value) and stores what
  the callback returns; \<open>Set\<close> stores; \<open>Remove\<close> deletes. A callback that panics
  (\<open>None\<close>) stores nothing.
\<close>

definition cmap_Upsert ::
  "string \<Rightarrow> Context \<Rightarrow> (bool \<Rightarrow> Context \<Rightarrow> Context \<Rightarrow> 'w state \<Rightarrow> (Context \<times> 'w state) option)
     \<Rightarrow> 'w state \<Rightarrow> 'w state option" where
  "cmap_Upsert key val cb s =
     (case (case contexts s key of None \<Rightarrow> cb False NilCtx val s | Some v \<Rightarrow> cb True v val s) of
        None \<Rightarrow> None
      | Some (res, s') \<Rightarrow> Some (s'\<lparr>contexts := (contexts s')(key \<mapsto> res)\<rparr>))"

definition cmap_Set :: "string \<Rightarrow> Context \<Rightarrow> 'w state \<Rightarrow> 'w state" where
  "cmap_Set key val s = s\<lparr>contexts := (contexts s)(key \<mapsto> val)\<rparr>"

definition cmap_Remove :: "string \<Rightarrow> 'w state \<Rightarrow> 'w state" where
  "cmap_Remove key s = s\<lparr>contexts := (contexts s)(key := None)\<rparr>"

text \<open>\<open>Close()\<close> on a context: recorded; on \<open>nil\<close> the call panics.\<close>

fun Close :: "Context \<Rightarrow> 'w state \<Rightarrow> 'w state option" where
  "Close NilCtx s = None"
| "Close (Ref r) s = Some (s\<lparr>closed := closed s @ [r]\<rparr>)"

text \<open>The callback \<open>Add\<close> hands to \<open>Upsert\<close>.\<close>

definition Add_cb :: "bool \<Rightarrow> Context \<Rightarrow> Context \<Rightarrow> 'w state \<Rightarrow> (Context \<times> 'w state) option" where
  "Add_cb exist valueInMap newValue s =
     (if exist \<and> valueInMap \<noteq> NilCtx \<and> valueInMap \<noteq> newValue
      then (case Close valueInMap s of None \<Rightarrow> None | Some s' \<Rightarrow> Some (newValue, s'))
      else Some (newValue, s))"

text \<open>
  \<open>Add\<close>: \<open>Upsert\<close> with the callback, then \<open>Set\<close> under the same key.
  \<open>ctx.GetId()\<close> on \<open>nil\<close> panics.
\<close>

fun Add :: "(nat \<Rightarrow> string) \<Rightarrow> Context \<Rightarrow> 'w state \<Rightarrow> 'w state option" where
  "Add GetId NilCtx s = None"
| "Add GetId (Ref r) s =
     (case cmap_Upsert (GetId r) (Ref r) Add_cb s of
        None \<Rightarrow> None
      | Some s' \<Rightarrow> Some (cmap_Set (GetId r) (Ref r) s'))"

fun Remove :: "(nat \<Rightarrow> string) \<Rightarrow> Context \<Rightarrow> 'w state \<Rightarrow> 'w state option" where
  "Remove GetId NilCtx s = None"
| "Remove GetId (Ref r) s = Some (cmap_Remove (GetId r) s)"

definition RemoveById :: "string \<Rightarrow> 'w state \<Rightarrow> 'w state" where
  "RemoveById ident s = cmap_Remove ident s"

text \<open>How often \<open>Close()\<close> has been called on an instance.\<close>

definition closes :: "'w state \<Rightarrow> nat \<Rightarrow> nat" where
  "closes s r = count_list (closed s) r"

section \<open>Configuration (config.go)\<close>

text \<open>
  A JSON document, as \<open>encoding/json\<close> sees it once the text has passed its syntax
  check. Numbers keep their literal.
\<close>

datatype json =
    JNull
  | JBool bool
  | JNumber string
  | JString string
  | JArray "json list"
  | JObject "(string \<times> json) list"

text \<open>
  \<open>Config\<close>. \<open>identity.Config\<close> and \<open>apis.Credentials\<close> are declared in other modules:
  they are the type parameters \<open>'id\<close> and \<open>'cred\<close>. \<open>Credentials\<close> is an interface
  value, \<open>None\<close> when \<open>nil\<close>.
\<close>

record ('id, 'cred) Config =
  ZtAPI :: string
  ConfigTypes :: slice
  ID :: 'id
  Credentials :: "'cred option"

text \<open>An \<open>error\<close> built by \<open>errors.Errorf\<close> or handed on from a collaborator: its message.\<close>

datatype error = Errorf string

text \<open>
  What the package calls outside itself, as functions of the outside state \<open>'w\<close>:
  \<^item> \<open>Getenv\<close> is \<open>os.Getenv\<close>;
  \<^item> \<open>ReadFile\<close> is \<open>os.ReadFile\<close>, \<open>None\<close> when it returns an error;
  \<^item> \<open>scan\<close> is the lexical layer of \<open>json.Unmarshal\<close>: the message of the syntax
    error, or the document;
  \<^item> \<open>equalFold name key\<close> is the case-folding match of an object key against a
    field name that the decoder falls back on when no field has the key as its name;
  \<^item> \<open>zeroID\<close>, \<open>decodeID\<close> and \<open>encodeID\<close> are the zero value of \<open>identity.Config\<close>,
    the decoding of a JSON value into a value of that type (the message of the
    error, or the new value) and its encoding;
  \<^item> \<open>GetId\<close> is the \<open>GetId()\<close> method of the context instances.
  \<^item> \<open>ziti_NewContextWithOpts\<close> is the package-level \<open>NewContextWithOpts\<close>.
    Modelled from the spec: the function is in a file of the package that is not among
    the sources; the spec gives it as \<open>create(cfg, options) -> Result<ContextHandle,
    CreateError>\<close>, which fully owns session establishment. It receives the pointer
    \<open>cfg\<close>, so it returns what it leaves in the \<open>Config\<close> as well, with an instance
    (never \<open>nil\<close>) or an error, and the new outside state.
\<close>

record ('id, 'cred, 'o, 'w) collab =
  Getenv :: "'w \<Rightarrow> string \<Rightarrow> string"
  ReadFile :: "'w \<Rightarrow> string \<Rightarrow> string option"
  scan :: "string \<Rightarrow> string + json"
  equalFold :: "string \<Rightarrow> string \<Rightarrow> bool"
  zeroID :: 'id
  decodeID :: "json \<Rightarrow> 'id \<Rightarrow> string + 'id"
  encodeID :: "'id \<Rightarrow> json"
  GetId :: "nat \<Rightarrow> string"
  ziti_NewContextWithOpts ::
    "'w \<Rightarrow> ('id, 'cred) Config \<Rightarrow> 'o option \<Rightarrow> (error + nat) \<times> ('id, 'cred) Config \<times> 'w"

subsection \<open>Decoding: \<open>json.Unmarshal\<close> into a \<open>Config\<close>\<close>

text \<open>The kind of a JSON value, as an \<open>UnmarshalTypeError\<close> names it.\<close>

fun kind :: "json \<Rightarrow> string" where
  "kind JNull = ''null''"
| "kind (JBool b) = ''bool''"
| "kind (JNumber n) = ''number''"
| "kind (JString s) = ''string''"
| "kind (JArray vs) = ''array''"
| "kind (JObject ms) = ''object''"

definition type_error :: "json \<Rightarrow> string \<Rightarrow> string \<Rightarrow> string" where
  "type_error v field ty =
     ''json: cannot unmarshal '' @ kind v @
       (if field = [] then '' into Go value of type '' @ ty
        else '' into Go struct field Config.'' @ field @ '' of type '' @ ty)"

text \<open>
  Into a \<open>string\<close>: a JSON string is stored, \<open>null\<close> leaves the old value, anything else
  is a type error.
\<close>

fun decode_string :: "string \<Rightarrow> json \<Rightarrow> string \<Rightarrow> string + string" where
  "decode_string field (JString s) old = Inr s"
| "decode_string field JNull old = Inr old"
| "decode_string field v old = Inl (type_error v field ''string'')"

text \<open>
  Into a \<open>[]string\<close>, an array: element \<open>i\<close> is decoded into cell \<open>i\<close> of the slice as it
  stands (the old element, or the stale cell behind the old length, or a zero cell).
\<close>

fun decode_elems :: "string \<Rightarrow> json list \<Rightarrow> string list \<Rightarrow> string + string list" where
  "decode_elems field [] old = Inr []"
| "decode_elems field (v # vs) old =
     (case decode_string field v (case old of [] \<Rightarrow> [] | c # cs \<Rightarrow> c) of
        Inl m \<Rightarrow> Inl m
      | Inr x \<Rightarrow>
          (case decode_elems field vs (tl old) of
             Inl m \<Rightarrow> Inl m
           | Inr xs \<Rightarrow> Inr (x # xs)))"

text \<open>
  \<open>null\<close> sets the slice to \<open>nil\<close>; an empty array gives a new empty slice; a longer
  one leaves the cells behind the new length as they were.
\<close>

fun decode_slice :: "string \<Rightarrow> json \<Rightarrow> slice \<Rightarrow> string + slice" where
  "decode_slice field JNull old = Inr NilSlice"
| "decode_slice field (JArray vs) old =
     (if vs = [] then Inr (Slice [] 0)
      else (case decode_elems field vs (cells old) of
              Inl m \<Rightarrow> Inl m
            | Inr xs \<Rightarrow> Inr (Slice (xs @ drop (length xs) (cells old)) (length xs))))"
| "decode_slice field v old = Inl (type_error v field ''[]string'')"

text \<open>
  The fields of \<open>Config\<close> the decoder knows, in declaration order, under their \<open>json\<close>
  tags. \<open>Credentials\<close> is tagged \<open>json:"-"\<close>: it is not among them.
\<close>

datatype field = F_ztAPI | F_configTypes | F_id

fun tag :: "field \<Rightarrow> string" where
  "tag F_ztAPI = ''ztAPI''"
| "tag F_configTypes = ''configTypes''"
| "tag F_id = ''id''"

definition fields :: "field list" where
  "fields = [F_ztAPI, F_configTypes, F_id]"

text \<open>The field of a key: the one tagged with it; failing that, the first that folds to it.\<close>

definition field_of :: "('id, 'cred, 'o, 'w) collab \<Rightarrow> string \<Rightarrow> field option" where
  "field_of cb key =
     (case find (\<lambda>f. tag f = key) fields of
        Some f \<Rightarrow> Some f
      | None \<Rightarrow> find (\<lambda>f. equalFold cb (tag f) key) fields)"

text \<open>One member of the object: a key with no field is skipped.\<close>

definition decode_member ::
  "('id, 'cred, 'o, 'w) collab \<Rightarrow> string \<times> json \<Rightarrow> ('id, 'cred) Config
     \<Rightarrow> string + ('id, 'cred) Config" where
  "decode_member cb m c =
     (case field_of cb (fst m) of
        None \<Rightarrow> Inr c
      | Some F_ztAPI \<Rightarrow>
          (case decode_string ''ztAPI'' (snd m) (ZtAPI c) of
             Inl e \<Rightarrow> Inl e
           | Inr s \<Rightarrow> Inr (c\<lparr>ZtAPI := s\<rparr>))
      | Some F_configTypes \<Rightarrow>
          (case decode_slice ''configTypes'' (snd m) (ConfigTypes c) of
             Inl e \<Rightarrow> Inl e
           | Inr s \<Rightarrow> Inr (c\<lparr>ConfigTypes := s\<rparr>))
      | Some F_id \<Rightarrow>
          (case decodeID cb (snd m) (ID c) of
             Inl e \<Rightarrow> Inl e
           | Inr i \<Rightarrow> Inr (c\<lparr>ID := i\<rparr>)))"

text \<open>
  The members in document order. The decoder keeps the first type error and returns it
  at the end; the caller drops the value then, so the model stops at it.
\<close>

fun decode_members ::
  "('id, 'cred, 'o, 'w) collab \<Rightarrow> (string \<times> json) list \<Rightarrow> ('id, 'cred) Config
     \<Rightarrow> string + ('id, 'cred) Config" where
  "decode_members cb [] c = Inr c"
| "decode_members cb (m # ms) c =
     (case decode_member cb m c of
        Inl e \<Rightarrow> Inl e
      | Inr c' \<Rightarrow> decode_members cb ms c')"

text \<open>Into the struct: an object member by member, \<open>null\<close> changes nothing.\<close>

fun decode_Config ::
  "('id, 'cred, 'o, 'w) collab \<Rightarrow> json \<Rightarrow> ('id, 'cred) Config \<Rightarrow> string + ('id, 'cred) Config" where
  "decode_Config cb JNull c = Inr c"
| "decode_Config cb (JObject ms) c = decode_members cb ms c"
| "decode_Config cb v c = Inl (type_error v [] ''ziti.Config'')"

definition json_Unmarshal ::
  "('id, 'cred, 'o, 'w) collab \<Rightarrow> string \<Rightarrow> ('id, 'cred) Config \<Rightarrow> string + ('id, 'cred) Config" where
  "json_Unmarshal cb conf c =
     (case scan cb conf of
        Inl e \<Rightarrow> Inl e
      | Inr doc \<Rightarrow> decode_Config cb doc c)"

text \<open>The zero value \<open>Config{}\<close>.\<close>

definition Config_zero :: "('id, 'cred, 'o, 'w) collab \<Rightarrow> ('id, 'cred) Config" where
  "Config_zero cb = \<lparr>ZtAPI = [], ConfigTypes = NilSlice, ID = zeroID cb, Credentials = None\<rparr>"

text \<open>The two errors of \<open>NewConfigFromFile\<close>.\<close>

definition not_found :: "string \<Rightarrow> error" where
  "not_found confFile = Errorf (''config file ('' @ confFile @ '') is not found '')"

definition failed_to_load :: "string \<Rightarrow> string \<Rightarrow> error" where
  "failed_to_load confFile err =
     Errorf (''failed to load ziti configuration ('' @ confFile @ ''): '' @ err)"

definition NewConfigFromFile ::
  "('id, 'cred, 'o, 'w) collab \<Rightarrow> 'w \<Rightarrow> string \<Rightarrow> error + ('id, 'cred) Config" where
  "NewConfigFromFile cb w confFile =
     (case ReadFile cb w confFile of
        None \<Rightarrow> Inl (not_found confFile)
      | Some conf \<Rightarrow>
          (case json_Unmarshal cb conf (Config_zero cb) of
             Inl err \<Rightarrow> Inl (failed_to_load confFile err)
           | Inr c \<Rightarrow> Inr c))"

subsection \<open>Encoding: \<open>json.Marshal\<close> of a \<open>Config\<close>\<close>

text \<open>
  \<open>utf8.DecodeRuneInString\<close>, as far as the encoder uses it: for a first byte that
  starts a multi-byte encoding, the size of the encoding and the range the second byte
  must be in.
\<close>

definition first :: "nat \<Rightarrow> (nat \<times> nat \<times> nat) option" where
  "first s0 =
     (if 0xC2 \<le> s0 \<and> s0 \<le> 0xDF then Some (2, 0x80, 0xBF)
      else if s0 = 0xE0 then Some (3, 0xA0, 0xBF)
      else if 0xE1 \<le> s0 \<and> s0 \<le> 0xEC then Some (3, 0x80, 0xBF)
      else if s0 = 0xED then Some (3, 0x80, 0x9F)
      else if 0xEE \<le> s0 \<and> s0 \<le> 0xEF then Some (3, 0x80, 0xBF)
      else if s0 = 0xF0 then Some (4, 0x90, 0xBF)
      else if 0xF1 \<le> s0 \<and> s0 \<le> 0xF3 then Some (4, 0x80, 0xBF)
      else if s0 = 0xF4 then Some (4, 0x80, 0x8F)
      else None)"

definition locb :: nat where
  "locb = 0x80"

definition hicb :: nat where
  "hicb = 0xBF"

text \<open>
  The size of the rune at the head of a string that starts with a byte of \<open>0x80\<close> or
  more; \<open>None\<close> is \<open>(RuneError, 1)\<close>: the bytes are not an encoding.
\<close>

fun DecodeRuneInString :: "string \<Rightarrow> nat option" where
  "DecodeRuneInString [] = None"
| "DecodeRuneInString (c0 # s) =
     (case first (of_char c0) of
        None \<Rightarrow> None
      | Some (sz, lo, hi) \<Rightarrow>
          (case s of
             [] \<Rightarrow> None
           | c1 # t \<Rightarrow>
               if of_char c1 < lo \<or> hi < of_char c1 then None
               else if sz \<le> 2 then Some 2
               else (case t of
                       [] \<Rightarrow> None
                     | c2 # u \<Rightarrow>
                         if of_char c2 < locb \<or> hicb < of_char c2 then None
                         else if sz \<le> 3 then Some 3
                         else (case u of
                                 [] \<Rightarrow> None
                               | c3 # v \<Rightarrow>
                                   if of_char c3 < locb \<or> hicb < of_char c3 then None
                                   else Some 4))))"

text \<open>The UTF-8 encoding of U+FFFD, the replacement rune.\<close>

definition RuneError :: string where
  "RuneError = [char_of (0xEF :: nat), char_of (0xBF :: nat), char_of (0xBD :: nat)]"

text \<open>
  What the encoder makes of a Go string, read back: bytes below \<open>0x80\<close> and whole
  encodings pass, every other byte becomes U+FFFD. The first argument counts the bytes
  of an accepted encoding still to be passed.
\<close>

fun coerce :: "nat \<Rightarrow> string \<Rightarrow> string" where
  "coerce k [] = []"
| "coerce k (c # s) =
     (if 0 < k then c # coerce (k - 1) s
      else if (of_char c :: nat) < 0x80 then c # coerce 0 s
      else (case DecodeRuneInString (c # s) of
              None \<Rightarrow> RuneError @ coerce 0 s
            | Some n \<Rightarrow> c # coerce (n - 1) s))"

definition toValidUTF8 :: "string \<Rightarrow> string" where
  "toValidUTF8 s = coerce 0 s"

text \<open>
  \<open>utf8.ValidString\<close>: the string is made of bytes below \<open>0x80\<close> and of whole encodings
  only. It runs through the string as \<open>coerce\<close> does.
\<close>

fun valid_from :: "nat \<Rightarrow> string \<Rightarrow> bool" where
  "valid_from k [] = True"
| "valid_from k (c # s) =
     (if 0 < k then valid_from (k - 1) s
      else if (of_char c :: nat) < 0x80 then valid_from 0 s
      else (case DecodeRuneInString (c # s) of
              None \<Rightarrow> False
            | Some n \<Rightarrow> valid_from (n - 1) s))"

definition ValidString :: "string \<Rightarrow> bool" where
  "ValidString s = valid_from 0 s"

text \<open>A \<open>[]string\<close>: \<open>null\<close> when \<open>nil\<close>, an array of strings otherwise.\<close>

fun marshal_slice :: "slice \<Rightarrow> json" where
  "marshal_slice NilSlice = JNull"
| "marshal_slice (Slice cs n) = JArray (map (\<lambda>x. JString (toValidUTF8 x)) (elems (Slice cs n)))"

text \<open>
  The struct: one member for each field with a tag, in declaration order. The field
  tagged \<open>json:"-"\<close> is left out.
\<close>

definition marshal_Config :: "('id, 'cred, 'o, 'w) collab \<Rightarrow> ('id, 'cred) Config \<Rightarrow> json" where
  "marshal_Config cb c =
     JObject [(''ztAPI'', JString (toValidUTF8 (ZtAPI c))),
              (''configTypes'', marshal_slice (ConfigTypes c)),
              (''id'', encodeID cb (ID c))]"

text \<open>The keys of the members of a document that is an object.\<close>

fun keys :: "json \<Rightarrow> string list" where
  "keys (JObject ms) = map fst ms"
| "keys v = []"

section \<open>Creating contexts through the collection (collection.go)\<close>

text \<open>
  \<open>NewContextWithOpts\<close> of the collection. \<open>cfg\<close> is a pointer: \<open>None\<close> is \<open>nil\<close>, and
  the \<open>Config\<close> it points to is returned as the call leaves it. The result is \<open>None\<close>
  when the call panics.
\<close>

definition NewContextWithOpts ::
  "('id, 'cred, 'o, 'w) collab \<Rightarrow> ('id, 'cred) Config option \<Rightarrow> 'o option \<Rightarrow> 'w state
     \<Rightarrow> ((error + Context) \<times> ('id, 'cred) Config \<times> 'w state) option" where
  "NewContextWithOpts cb cfg options s =
     (case cfg of
        None \<Rightarrow> None
      | Some c \<Rightarrow>
          (case ziti_NewContextWithOpts cb (ext s)
                  (c\<lparr>ConfigTypes := append (ConfigTypes c) (collConfigTypes s)\<rparr>) options of
             (Inl err, c', w) \<Rightarrow> Some (Inl err, c', s\<lparr>ext := w\<rparr>)
           | (Inr ctx, c', w) \<Rightarrow>
               (case Add (GetId cb) (Ref ctx) (s\<lparr>ext := w\<rparr>) of
                  None \<Rightarrow> None
                | Some s' \<Rightarrow> Some (Inr (Ref ctx), c', s'))))"

definition NewContext ::
  "('id, 'cred, 'o, 'w) collab \<Rightarrow> ('id, 'cred) Config option \<Rightarrow> 'w state
     \<Rightarrow> ((error + Context) \<times> ('id, 'cred) Config \<times> 'w state) option" where
  "NewContext cb cfg s = NewContextWithOpts cb cfg None s"

text \<open>\<open>strings.Split\<close> with a separator of one byte.\<close>

fun Split :: "string \<Rightarrow> char \<Rightarrow> string list" where
  "Split [] sep = [[]]"
| "Split (c # s) sep =
     (if c = sep then [] # Split s sep
      else (case Split s sep of
              [] \<Rightarrow> [[c]]
            | x # xs \<Rightarrow> (c # x) # xs))"

text \<open>\<open>pfxlog.Logger().Errorf\<close>: the line is given to the logger.\<close>

definition logger_Errorf :: "string \<Rightarrow> 'w state \<Rightarrow> 'w state" where
  "logger_Errorf line s = s\<lparr>logged := logged s @ [line]\<rparr>"

definition failed_load_line :: "string \<Rightarrow> string" where
  "failed_load_line identityFile =
     ''failed to load config from file '' @ [CHR 0x27] @ identityFile @ [CHR 0x27]"

definition failed_create_line :: "string \<Rightarrow> string" where
  "failed_create_line identityFile =
     ''failed to create context from '' @ [CHR 0x27] @ identityFile @ [CHR 0x27]"

text \<open>The loop of \<open>NewSdkCollectionFromEnv\<close> over \<open>identityFiles\<close>.\<close>

fun identityFiles_loop ::
  "('id, 'cred, 'o, 'w) collab \<Rightarrow> string list \<Rightarrow> 'w state \<Rightarrow> 'w state option" where
  "identityFiles_loop cb [] s = Some s"
| "identityFiles_loop cb (identityFile # rest) s =
     (if identityFile = [] then identityFiles_loop cb rest s
      else (case NewConfigFromFile cb (ext s) identityFile of
              Inl err \<Rightarrow> identityFiles_loop cb rest (logger_Errorf (failed_load_line identityFile) s)
            | Inr cfg \<Rightarrow>
                (case NewContext cb (Some cfg) s of
                   None \<Rightarrow> None
                 | Some (Inl err, c', s') \<Rightarrow>
                     identityFiles_loop cb rest (logger_Errorf (failed_create_line identityFile) s')
                 | Some (Inr ctx, c', s') \<Rightarrow> identityFiles_loop cb rest s')))"

text \<open>\<open>identityFiles\<close>: the value of the variable, split at \<open>;\<close>.\<close>

definition identityFiles :: "('id, 'cred, 'o, 'w) collab \<Rightarrow> 'w \<Rightarrow> string \<Rightarrow> string list" where
  "identityFiles cb w envVariable = Split (Getenv cb w envVariable) (CHR '';'')"

definition NewSdkCollectionFromEnv ::
  "('id, 'cred, 'o, 'w) collab \<Rightarrow> 'w \<Rightarrow> string \<Rightarrow> 'w state option" where
  "NewSdkCollectionFromEnv cb w envVariable =
     identityFiles_loop cb (identityFiles cb w envVariable) (NewSdkCollection w)"

text \<open>
  The record of a run of the loop: for each entry of the list, in order, whether it was
  empty and skipped, failed to load, failed to create, or gave an instance. An entry is
  judged in the state the loop is in when it reaches it; the record ends where a call
  panics.
\<close>

datatype outcome = Skipped | LoadFailed string | CreateFailed string | Created nat

fun outcomes ::
  "('id, 'cred, 'o, 'w) collab \<Rightarrow> string list \<Rightarrow> 'w state \<Rightarrow> outcome list" where
  "outcomes cb [] s = []"
| "outcomes cb (identityFile # rest) s =
     (if identityFile = [] then Skipped # outcomes cb rest s
      else (case NewConfigFromFile cb (ext s) identityFile of
              Inl err \<Rightarrow>
                LoadFailed identityFile
                  # outcomes cb rest (logger_Errorf (failed_load_line identityFile) s)
            | Inr cfg \<Rightarrow>
                (case NewContext cb (Some cfg) s of
                   None \<Rightarrow> []
                 | Some (Inl err, c', s') \<Rightarrow>
                     CreateFailed identityFile
                       # outcomes cb rest (logger_Errorf (failed_create_line identityFile) s')
                 | Some (Inr ctx, c', s') \<Rightarrow>
                     (case ctx of NilCtx \<Rightarrow> [] | Ref h \<Rightarrow> Created h # outcomes cb rest s'))))"

fun created :: "outcome list \<Rightarrow> nat list" where
  "created [] = []"
| "created (Created h # os) = h # created os"
| "created (x # os) = created os"

fun failure_lines :: "outcome list \<Rightarrow> string list" where
  "failure_lines [] = []"
| "failure_lines (LoadFailed f # os) = failed_load_line f # failure_lines os"
| "failure_lines (CreateFailed f # os) = failed_create_line f # failure_lines os"
| "failure_lines (x # os) = failure_lines os"

text \<open>The entries of a call of \<open>NewSdkCollectionFromEnv\<close>.\<close>

definition env_outcomes ::
  "('id, 'cred, 'o, 'w) collab \<Rightarrow> 'w \<Rightarrow> string \<Rightarrow> outcome list" where
  "env_outcomes cb w envVariable =
     outcomes cb (identityFiles cb w envVariable) (NewSdkCollection w)"

text \<open>The map that holds, under each identity, the last of a list of instances that has it.\<close>

fun registry :: "(nat \<Rightarrow> string) \<Rightarrow> nat list \<Rightarrow> (string \<rightharpoonup> Context) \<Rightarrow> (string \<rightharpoonup> Context)" where
  "registry g [] m = m"
| "registry g (h # hs) m = registry g hs (m(g h \<mapsto> Ref h))"

section \<open>Concurrent calls of \<open>Add\<close>\<close>

text \<open>
  Goroutines that each call \<open>Add\<close> once. A call is two operations of the map, each
  atomic under the shard's lock, and the scheduler may run other goroutines between
  them: a goroutine is the instance it adds and the operation it is about to do.
\<close>

datatype pc = AtUpsert | AtSet | Returned

fun Add_step ::
  "(nat \<Rightarrow> string) \<Rightarrow> nat \<times> pc \<Rightarrow> 'w state \<Rightarrow> ((nat \<times> pc) \<times> 'w state) option" where
  "Add_step getId (r, AtUpsert) s =
     (case cmap_Upsert (getId r) (Ref r) Add_cb s of
        None \<Rightarrow> None
      | Some s' \<Rightarrow> Some ((r, AtSet), s'))"
| "Add_step getId (r, AtSet) s = Some ((r, Returned), cmap_Set (getId r) (Ref r) s)"
| "Add_step getId (r, Returned) s = None"

text \<open>
  A schedule names, step by step, the goroutine that runs next; \<open>None\<close> when it names
  one that does not exist or has returned, or when a step panics.
\<close>

fun run ::
  "(nat \<Rightarrow> string) \<Rightarrow> nat list \<Rightarrow> (nat \<times> pc) list \<times> 'w state
     \<Rightarrow> ((nat \<times> pc) list \<times> 'w state) option" where
  "run getId [] c = Some c"
| "run getId (i # sched) (ts, s) =
     (if i < length ts
      then (case Add_step getId (ts ! i) s of
              None \<Rightarrow> None
            | Some (t, s') \<Rightarrow> run getId sched (ts[i := t], s'))
      else None)"

text \<open>The goroutines for a list of instances, none started.\<close>

definition spawn :: "nat list \<Rightarrow> (nat \<times> pc) list" where
  "spawn hs = map (\<lambda>h. (h, AtUpsert)) hs"

section \<open>An example outside world\<close>

text \<open>
  Collaborators to run the package on. The outside state is the value of the environment
  variable \<open>ZITI_IDENTITIES\<close> and the number of instances created so far. There are
  four files: \<open>good\<close> and \<open>good2\<close> hold a configuration with a controller address and
  an identity, \<open>noapi\<close> holds one with an identity only, \<open>bad\<close> holds a text that
  breaks off; no other path can be read. \<open>ex_scan\<close> gives the documents of the three
  texts that are JSON and the syntax error of the one that breaks off. Keys are folded
  as ASCII letters. An identity is the JSON object it was read from, the zero identity
  the object with no member.
  The factory refuses a configuration with no controller address; otherwise it returns
  the next instance and leaves the configuration as it got it. The first instance
  reports the identity \<open>identity-0\<close>, every other one \<open>identity-1\<close>.
\<close>

definition ex_Getenv :: "string \<times> nat \<Rightarrow> string \<Rightarrow> string" where
  "ex_Getenv w name = (if name = ''ZITI_IDENTITIES'' then fst w else [])"

definition good_json :: string where
  "good_json =
     ''{\"ztAPI\":\"https://ctrl\",\"configTypes\":[\"c1\",\"c2\"],\"id\":{\"cert\":\"pem\"}}''"

definition good2_json :: string where
  "good2_json = ''{\"ztAPI\":\"https://ctrl2\",\"id\":{\"cert\":\"pem2\"}}''"

definition noapi_json :: string where
  "noapi_json = ''{\"id\":{\"cert\":\"pem3\"}}''"

definition bad_json :: string where
  "bad_json = ''{\"ztAPI\":''"

definition ex_ReadFile :: "string \<times> nat \<Rightarrow> string \<Rightarrow> string option" where
  "ex_ReadFile w path =
     (if path = ''good'' then Some good_json
      else if path = ''good2'' then Some good2_json
      else if path = ''noapi'' then Some noapi_json
      else if path = ''bad'' then Some bad_json
      else None)"

definition ex_scan :: "string \<Rightarrow> string + json" where
  "ex_scan conf =
     (if conf = good_json then
        Inr (JObject [(''ztAPI'', JString ''https://ctrl''),
                      (''configTypes'', JArray [JString ''c1'', JString ''c2'']),
                      (''id'', JObject [(''cert'', JString ''pem'')])])
      else if conf = good2_json then
        Inr (JObject [(''ztAPI'', JString ''https://ctrl2''),
                      (''id'', JObject [(''cert'', JString ''pem2'')])])
      else if conf = noapi_json then
        Inr (JObject [(''id'', JObject [(''cert'', JString ''pem3'')])])
      else Inl ''unexpected end of JSON input'')"

definition ex_upper :: "char \<Rightarrow> char" where
  "ex_upper c =
     (if (97 :: nat) \<le> of_char c \<and> (of_char c :: nat) \<le> 122
      then char_of (of_char c - (32 :: nat)) else c)"

definition ex_equalFold :: "string \<Rightarrow> string \<Rightarrow> bool" where
  "ex_equalFold name key = (map ex_upper name = map ex_upper key)"

definition ex_decodeID :: "json \<Rightarrow> json \<Rightarrow> string + json" where
  "ex_decodeID v old =
     (case v of
        JObject ms \<Rightarrow> Inr v
      | JNull \<Rightarrow> Inr old
      | _ \<Rightarrow> Inl (type_error v ''id'' ''identity.Config''))"

definition ex_GetId :: "nat \<Rightarrow> string" where
  "ex_GetId h = (if h = 0 then ''identity-0'' else ''identity-1'')"

definition ex_create ::
  "string \<times> nat \<Rightarrow> (json, unit) Config \<Rightarrow> unit option
     \<Rightarrow> (error + nat) \<times> (json, unit) Config \<times> (string \<times> nat)" where
  "ex_create w c options =
     (if ZtAPI c = [] then (Inl (Errorf ''no controller address''), c, w)
      else (Inr (snd w), c, (fst w, Suc (snd w))))"

definition ex :: "(json, unit, unit, string \<times> nat) collab" where
  "ex = \<lparr>Getenv = ex_Getenv, ReadFile = ex_ReadFile, scan = ex_scan,
          equalFold = ex_equalFold, zeroID = JObject [], decodeID = ex_decodeID,
          encodeID = (\<lambda>i. i), GetId = ex_GetId, ziti_NewContextWithOpts = ex_create\<rparr>"

section \<open>Properties of the collection\<close>

lemma Add_Ref:
  "Add g (Ref r) s =
     Some (s\<lparr>contexts := (contexts s)(g r \<mapsto> Ref r),
             closed := (case contexts s (g r) of
                          Some (Ref q) \<Rightarrow> if q = r then closed s else closed s @ [q]
                        | _ \<Rightarrow> closed s)\<rparr>)"
  by (auto simp: cmap_Upsert_def cmap_Set_def Add_cb_def split: option.splits Context.splits)

lemma closes_Add:
  "Add g (Ref r) s = Some s' \<Longrightarrow> closes s' r = closes s r"
  by (auto simp: Add_Ref closes_def simp del: Add.simps split: option.splits Context.splits)

lemma RemoveById_absent:
  "contexts s k = None \<Longrightarrow> RemoveById k s = s"
  by (simp add: RemoveById_def cmap_Remove_def fun_upd_idem)

text \<open>
  Claim C4, amended. Two distinct instances with the same identity, added one after the
  other: both calls return, the second call closes the first instance and nothing else,
  the first instance is closed once in all, and the collection holds the second under
  the identity. The second instance is closed by neither call unless the collection held
  it under that identity before the first call: then the first call closes it, once. In
  a new collection, for one, it is not closed.
\<close>

theorem add_replaces_and_closes:
  assumes "h1 \<noteq> h2" and "g h1 = g h2"
  shows "\<exists>s1 s2. Add g (Ref h1) s = Some s1 \<and> Add g (Ref h2) s1 = Some s2
     \<and> closed s2 = closed s1 @ [h1]
     \<and> closes s2 h1 = closes s h1 + 1
     \<and> closes s2 h2 = closes s h2 + (if contexts s (g h1) = Some (Ref h2) then 1 else 0)
     \<and> contexts s2 (g h1) = Some (Ref h2)"
  using assms
  by (auto simp: Add_Ref closes_def simp del: Add.simps split: option.splits Context.splits)

theorem add_replaces_and_closes_witness:
  "\<exists>s1 s2. Add (\<lambda>h. ''id'') (Ref 1) (NewSdkCollection ()) = Some s1
     \<and> Add (\<lambda>h. ''id'') (Ref 2) s1 = Some s2
     \<and> closed s2 = closed s1 @ [1]
     \<and> closes s2 1 = closes (NewSdkCollection ()) 1 + 1
     \<and> closes s2 2 = closes (NewSdkCollection ()) 2
     \<and> contexts s2 ''id'' = Some (Ref 2) \<and> closed s2 = [1]"
  using add_replaces_and_closes [of 1 2 "\<lambda>h. ''id''" "NewSdkCollection ()"]
  by (auto simp: NewSdkCollection_def Add_Ref closes_def simp del: Add.simps)

text \<open>
  The claim as it stands fails in a collection that holds the second instance. Instances
  1 and 2 have the same identity; after \<open>Add\<close> of instance 2 to a new collection, nothing
  is closed; \<open>Add\<close> of instance 1 then closes instance 2, and \<open>Add\<close> of instance 2 closes
  instance 1.
\<close>

theorem add_closes_second_instance_when_stored:
  "ex_GetId 1 = ex_GetId 2
   \<and> map_option closed (Add ex_GetId (Ref 2) (NewSdkCollection ())) = Some []
   \<and> map_option closed
         (Option.bind (Add ex_GetId (Ref 2) (NewSdkCollection ())) (Add ex_GetId (Ref 1)))
       = Some [2]
   \<and> map_option closed
         (Option.bind
            (Option.bind (Add ex_GetId (Ref 2) (NewSdkCollection ())) (Add ex_GetId (Ref 1)))
            (Add ex_GetId (Ref 2)))
       = Some [2, 1]"
  by (simp add: NewSdkCollection_def Add_Ref ex_GetId_def del: Add.simps)

text \<open>
  Claim C5. Adding the same instance twice never closes it, the second call closes
  nothing at all, and the collection holds the instance under its identity.
\<close>

theorem add_same_instance_twice:
  "\<exists>s1 s2. Add g (Ref h) s = Some s1 \<and> Add g (Ref h) s1 = Some s2
     \<and> closed s2 = closed s1 \<and> closes s2 h = closes s h
     \<and> contexts s2 (g h) = Some (Ref h)"
  by (auto simp: Add_Ref closes_def simp del: Add.simps split: option.splits Context.splits)

theorem add_same_instance_twice_witness:
  "\<exists>s1 s2. Add (\<lambda>h. ''id'') (Ref 7) (NewSdkCollection ()) = Some s1
     \<and> Add (\<lambda>h. ''id'') (Ref 7) s1 = Some s2
     \<and> closed s2 = [] \<and> contexts s2 ''id'' = Some (Ref 7)"
  using add_same_instance_twice [of "\<lambda>h. ''id''" 7 "NewSdkCollection ()"]
  by (auto simp: NewSdkCollection_def Add_Ref closes_def simp del: Add.simps)

lemma Add_then_Remove:
  assumes "Add g (Ref h) s = Some s1"
  shows "\<exists>s2. Remove g (Ref h) s1 = Some s2 \<and> contexts s2 (g h) = None
           \<and> closes s2 h = closes s h
           \<and> ((\<forall>k. contexts s k = Some (Ref h) \<longrightarrow> k = g h) \<longrightarrow> Ref h \<notin> ran (contexts s2))"
proof -
  let ?s2 = "cmap_Remove (g h) s1"
  have c1: "contexts s1 = (contexts s)(g h \<mapsto> Ref h)"
    using assms by (simp add: Add_Ref del: Add.simps) auto
  have "closes s1 h = closes s h"
    using assms by (rule closes_Add)
  hence c2: "closes ?s2 h = closes s h"
    by (simp add: closes_def cmap_Remove_def)
  have c3: "contexts ?s2 = (contexts s)(g h := None)"
    by (simp add: cmap_Remove_def c1)
  have c4: "Ref h \<notin> ran (contexts ?s2)" if "\<forall>k. contexts s k = Some (Ref h) \<longrightarrow> k = g h"
  proof
    assume "Ref h \<in> ran (contexts ?s2)"
    then obtain k where k: "contexts ?s2 k = Some (Ref h)"
      by (auto simp: ran_def)
    hence "k \<noteq> g h" by (auto simp: c3)
    moreover from k have "contexts s k = Some (Ref h)"
      by (simp add: c3 split: if_splits)
    ultimately show False using that by blast
  qed
  show ?thesis
    using c2 c3 c4 by simp
qed

text \<open>
  Claim C9. \<open>Remove\<close> of an instance is \<open>RemoveById\<close> of its identity; it deletes the
  entry under that identity and closes nothing; with no entry there it changes nothing;
  and after \<open>Add\<close> of an instance, \<open>Remove\<close> leaves no entry under its identity, the
  instance is as often closed as before the two calls, and it is nowhere in the
  collection if it was under no other key before.
\<close>

theorem remove_never_closes:
  "Remove g (Ref h) s = Some (RemoveById (g h) s)
   \<and> contexts (RemoveById k s) = (contexts s)(k := None)
   \<and> closed (RemoveById k s) = closed s
   \<and> (contexts s k = None \<longrightarrow> RemoveById k s = s)
   \<and> (\<forall>s1. Add g (Ref h) s = Some s1 \<longrightarrow>
        (\<exists>s2. Remove g (Ref h) s1 = Some s2 \<and> contexts s2 (g h) = None
           \<and> closes s2 h = closes s h
           \<and> ((\<forall>k. contexts s k = Some (Ref h) \<longrightarrow> k = g h) \<longrightarrow> Ref h \<notin> ran (contexts s2))))"
proof -
  have "Remove g (Ref h) s = Some (RemoveById (g h) s)"
    by (simp add: RemoveById_def)
  moreover have "contexts (RemoveById k s) = (contexts s)(k := None)"
    by (simp add: RemoveById_def cmap_Remove_def)
  moreover have "closed (RemoveById k s) = closed s"
    by (simp add: RemoveById_def cmap_Remove_def)
  moreover have "contexts s k = None \<longrightarrow> RemoveById k s = s"
    using RemoveById_absent by blast
  moreover have "\<forall>s1. Add g (Ref h) s = Some s1 \<longrightarrow>
        (\<exists>s2. Remove g (Ref h) s1 = Some s2 \<and> contexts s2 (g h) = None
           \<and> closes s2 h = closes s h
           \<and> ((\<forall>k. contexts s k = Some (Ref h) \<longrightarrow> k = g h) \<longrightarrow> Ref h \<notin> ran (contexts s2)))"
    using Add_then_Remove by blast
  ultimately show ?thesis by blast
qed

theorem remove_never_closes_witness:
  "\<exists>s1 s2. Add (\<lambda>h. ''id'') (Ref 3) (NewSdkCollection ()) = Some s1
     \<and> contexts s1 ''id'' = Some (Ref 3)
     \<and> Remove (\<lambda>h. ''id'') (Ref 3) s1 = Some s2
     \<and> contexts s2 ''id'' = None \<and> closed s2 = [] \<and> Ref 3 \<notin> ran (contexts s2)
     \<and> contexts (NewSdkCollection ()) ''other'' = None
     \<and> RemoveById ''other'' (NewSdkCollection ()) = NewSdkCollection ()"
proof -
  let ?s = "NewSdkCollection ()"
  let ?g = "\<lambda>h::nat. ''id''"
  note R = remove_never_closes [of ?g 3 ?s "''other''"]
  have a: "Add ?g (Ref 3) ?s = Some (?s\<lparr>contexts := [''id'' \<mapsto> Ref 3]\<rparr>)"
    by (simp add: Add_Ref NewSdkCollection_def del: Add.simps)
  have n: "contexts ?s ''other'' = None"
    by (simp add: NewSdkCollection_def)
  have u: "\<forall>k. contexts ?s k = Some (Ref 3) \<longrightarrow> k = ?g 3"
    by (simp add: NewSdkCollection_def)
  from R a u obtain s2 where s2: "Remove ?g (Ref 3) (?s\<lparr>contexts := [''id'' \<mapsto> Ref 3]\<rparr>) = Some s2"
    "contexts s2 ''id'' = None" "Ref 3 \<notin> ran (contexts s2)"
    by blast
  have cl: "closed s2 = []"
    using s2(1) by (auto simp: cmap_Remove_def NewSdkCollection_def)
  from R n have i: "RemoveById ''other'' ?s = ?s" by blast
  show ?thesis
    using a s2 cl n i by simp
qed

text \<open>
  Claim C10. \<open>Remove\<close> looks at the identity only: whatever is stored under the identity
  of the instance handed in, that instance or another, is deleted and not closed, and
  the other entries stay.
\<close>

theorem remove_by_identity:
  assumes "contexts s (g r) = Some stored"
  shows "\<exists>s'. Remove g (Ref r) s = Some s' \<and> contexts s' (g r) = None
     \<and> closed s' = closed s \<and> (\<forall>k. k \<noteq> g r \<longrightarrow> contexts s' k = contexts s k)"
  using assms by (simp add: cmap_Remove_def)

theorem remove_by_identity_witness:
  "\<exists>s1 s'. Add (\<lambda>h. ''id'') (Ref 1) (NewSdkCollection ()) = Some s1
     \<and> contexts s1 ''id'' = Some (Ref 1)
     \<and> Remove (\<lambda>h. ''id'') (Ref 2) s1 = Some s'
     \<and> contexts s' ''id'' = None \<and> closed s' = []"
  using remove_by_identity [of "the (Add (\<lambda>h. ''id'') (Ref 1) (NewSdkCollection ()))"
      "\<lambda>h. ''id''" 2 "Ref 1"]
  by (auto simp: NewSdkCollection_def Add_Ref cmap_Remove_def simp del: Add.simps)

section \<open>Properties of concurrent calls of \<open>Add\<close>\<close>

text \<open>
  Claim C1. The claim fails for the code, which does not do what the comment on \<open>Add\<close>
  promises either. \<open>Add\<close> is an \<open>Upsert\<close> followed by a \<open>Set\<close>, and another goroutine may
  run between the two. Two goroutines add the instances 1 and 2, both of identity \<open>id\<close>,
  to a new collection: \<open>Upsert\<close> of 1, \<open>Upsert\<close> of 2 (which closes 1), \<open>Set\<close> of 2, \<open>Set\<close>
  of 1. Both calls have returned; the collection holds instance 1, which is closed, and
  instance 2, which is displaced, was never closed. With a third goroutine, \<open>Upsert\<close> of
  1, \<open>Upsert\<close> of 2, \<open>Set\<close> of 1, \<open>Upsert\<close> of 3, \<open>Set\<close> of 2, \<open>Set\<close> of 3 closes instance 1
  twice and instance 2 never. When the second goroutine starts after the first has
  returned, instance 1 is closed once and the collection holds instance 2.
\<close>

theorem concurrent_Add_closes_wrong_instance:
  "run (\<lambda>h. ''id'') [0, 0, 1, 1] (spawn [1, 2], NewSdkCollection ())
     = Some ([(1, Returned), (2, Returned)],
             \<lparr>contexts = [''id'' \<mapsto> Ref 2], collConfigTypes = NilSlice, closed = [1],
               logged = [], ext = ()\<rparr>)
   \<and> run (\<lambda>h. ''id'') [0, 1, 1, 0] (spawn [1, 2], NewSdkCollection ())
     = Some ([(1, Returned), (2, Returned)],
             \<lparr>contexts = [''id'' \<mapsto> Ref 1], collConfigTypes = NilSlice, closed = [1],
               logged = [], ext = ()\<rparr>)
   \<and> run (\<lambda>h. ''id'') [0, 1, 0, 2, 1, 2] (spawn [1, 2, 3], NewSdkCollection ())
     = Some ([(1, Returned), (2, Returned), (3, Returned)],
             \<lparr>contexts = [''id'' \<mapsto> Ref 3], collConfigTypes = NilSlice, closed = [1, 1],
               logged = [], ext = ()\<rparr>)"
  by (simp add: spawn_def NewSdkCollection_def cmap_Upsert_def cmap_Set_def Add_cb_def)

section \<open>Properties of the loader\<close>

text \<open>The loads of the example files.\<close>

lemma ex_load_good:
  "NewConfigFromFile ex w ''good'' =
     Inr \<lparr>ZtAPI = ''https://ctrl'', ConfigTypes = Slice [''c1'', ''c2''] 2,
          ID = JObject [(''cert'', JString ''pem'')], Credentials = None\<rparr>"
  by (simp add: NewConfigFromFile_def ex_def ex_ReadFile_def ex_scan_def json_Unmarshal_def
      Config_zero_def decode_member_def field_of_def fields_def ex_decodeID_def)

lemma ex_load_good2:
  "NewConfigFromFile ex w ''good2'' =
     Inr \<lparr>ZtAPI = ''https://ctrl2'', ConfigTypes = NilSlice,
          ID = JObject [(''cert'', JString ''pem2'')], Credentials = None\<rparr>"
  by (simp add: NewConfigFromFile_def ex_def ex_ReadFile_def ex_scan_def json_Unmarshal_def
      Config_zero_def decode_member_def field_of_def fields_def ex_decodeID_def
      good_json_def good2_json_def)

lemma ex_load_noapi:
  "NewConfigFromFile ex w ''noapi'' =
     Inr \<lparr>ZtAPI = [], ConfigTypes = NilSlice,
          ID = JObject [(''cert'', JString ''pem3'')], Credentials = None\<rparr>"
  by (simp add: NewConfigFromFile_def ex_def ex_ReadFile_def ex_scan_def json_Unmarshal_def
      Config_zero_def decode_member_def field_of_def fields_def ex_decodeID_def
      good_json_def good2_json_def noapi_json_def)

lemma ex_load_missing:
  "NewConfigFromFile ex w ''missing'' = Inl (not_found ''missing'')"
  by (simp add: NewConfigFromFile_def ex_def ex_ReadFile_def)

lemma ex_load_bad:
  "NewConfigFromFile ex w ''bad'' = Inl (failed_to_load ''bad'' ''unexpected end of JSON input'')"
  by (simp add: NewConfigFromFile_def ex_def ex_ReadFile_def ex_scan_def json_Unmarshal_def
      good_json_def good2_json_def noapi_json_def bad_json_def)

lemma not_found_neq_failed_to_load:
  "not_found f1 \<noteq> failed_to_load f2 e"
  by (simp add: not_found_def failed_to_load_def)

text \<open>
  Claim C7. \<open>NewConfigFromFile\<close> returns the error \<open>config file (...) is not found\<close>
  exactly when the file cannot be read; it returns an error \<open>failed to load ziti
  configuration (...): ...\<close>, with the decoder's message, exactly when the file is read
  and \<open>json.Unmarshal\<close> of its bytes fails; it returns a \<open>Config\<close>, what \<open>json.Unmarshal\<close>
  made of the zero value, exactly when the file is read and decoded. The two errors are
  never the same, whatever the paths and the decoder's message.
\<close>

theorem load_errors_distinguished:
  "(NewConfigFromFile cb w f = Inl (not_found f)) = (ReadFile cb w f = None)
   \<and> (NewConfigFromFile cb w f = Inl (failed_to_load f e))
       = (\<exists>conf. ReadFile cb w f = Some conf \<and> json_Unmarshal cb conf (Config_zero cb) = Inl e)
   \<and> (NewConfigFromFile cb w f = Inr c)
       = (\<exists>conf. ReadFile cb w f = Some conf \<and> json_Unmarshal cb conf (Config_zero cb) = Inr c)
   \<and> (\<exists>e'. NewConfigFromFile cb w f = Inl (not_found f)
          \<or> NewConfigFromFile cb w f = Inl (failed_to_load f e')
          \<or> (\<exists>c'. NewConfigFromFile cb w f = Inr c'))
   \<and> not_found f1 \<noteq> failed_to_load f2 e2"
proof -
  have inj: "\<And>a b. (failed_to_load f a = failed_to_load f b) = (a = b)"
    by (simp add: failed_to_load_def)
  have n: "\<And>a. failed_to_load f a \<noteq> not_found f"
    using not_found_neq_failed_to_load [of f f] by metis
  have 1: "(NewConfigFromFile cb w f = Inl (not_found f)) = (ReadFile cb w f = None)"
    by (simp add: NewConfigFromFile_def n split: option.splits sum.splits)
  have 2: "(NewConfigFromFile cb w f = Inl (failed_to_load f e))
       = (\<exists>conf. ReadFile cb w f = Some conf \<and> json_Unmarshal cb conf (Config_zero cb) = Inl e)"
    using not_found_neq_failed_to_load [of f f e]
    by (auto simp: NewConfigFromFile_def inj split: option.splits sum.splits)
  have 3: "(NewConfigFromFile cb w f = Inr c)
       = (\<exists>conf. ReadFile cb w f = Some conf \<and> json_Unmarshal cb conf (Config_zero cb) = Inr c)"
    by (auto simp: NewConfigFromFile_def split: option.splits sum.splits)
  have 4: "\<exists>e'. NewConfigFromFile cb w f = Inl (not_found f)
          \<or> NewConfigFromFile cb w f = Inl (failed_to_load f e')
          \<or> (\<exists>c'. NewConfigFromFile cb w f = Inr c')"
    by (auto simp: NewConfigFromFile_def split: option.splits sum.splits)
  show ?thesis
    using 1 2 3 4 not_found_neq_failed_to_load by blast
qed

theorem load_errors_distinguished_witness:
  "NewConfigFromFile ex ([], 0) ''missing'' = Inl (not_found ''missing'')
   \<and> ReadFile ex ([], 0) ''missing'' = None
   \<and> NewConfigFromFile ex ([], 0) ''bad''
       = Inl (failed_to_load ''bad'' ''unexpected end of JSON input'')
   \<and> (\<exists>conf. ReadFile ex ([], 0) ''bad'' = Some conf
         \<and> json_Unmarshal ex conf (Config_zero ex) = Inl ''unexpected end of JSON input'')
   \<and> (\<exists>c. NewConfigFromFile ex ([], 0) ''good'' = Inr c
         \<and> (\<exists>conf. ReadFile ex ([], 0) ''good'' = Some conf
               \<and> json_Unmarshal ex conf (Config_zero ex) = Inr c))
   \<and> not_found ''bad'' \<noteq> failed_to_load ''bad'' ''unexpected end of JSON input''"
  using
    load_errors_distinguished [of ex "([], 0)" "''missing''" "''unexpected end of JSON input''"
      _ "''bad''" "''bad''" "''unexpected end of JSON input''"]
    load_errors_distinguished [of ex "([], 0)" "''bad''" "''unexpected end of JSON input''"
      _ "''bad''" "''bad''" "''unexpected end of JSON input''"]
    load_errors_distinguished [of ex "([], 0)" "''good''" "''unexpected end of JSON input''"
      "\<lparr>ZtAPI = ''https://ctrl'', ConfigTypes = Slice [''c1'', ''c2''] 2,
          ID = JObject [(''cert'', JString ''pem'')], Credentials = None\<rparr>"
      "''bad''" "''bad''" "''unexpected end of JSON input''"]
    ex_load_good [of "([], 0)"] ex_load_missing [of "([], 0)"] ex_load_bad [of "([], 0)"]
  by blast

lemma decode_member_Credentials:
  "decode_member cb m c = Inr c' \<Longrightarrow> Credentials c' = Credentials c"
  by (auto simp: decode_member_def split: option.splits field.splits sum.splits)

lemma decode_members_Credentials:
  "decode_members cb ms c = Inr c' \<Longrightarrow> Credentials c' = Credentials c"
proof (induction ms arbitrary: c)
  case Nil
  then show ?case by simp
next
  case (Cons m ms)
  then show ?case
    by (auto split: sum.splits dest: decode_member_Credentials)
qed

lemma decode_Config_Credentials:
  "decode_Config cb doc c = Inr c' \<Longrightarrow> Credentials c' = Credentials c"
  by (cases doc) (auto dest: decode_members_Credentials)

text \<open>
  Claim C2, amended. \<open>NewConfigFromFile\<close> never populates \<open>Credentials\<close>: the field is
  \<open>nil\<close> in every \<open>Config\<close> it returns, whatever the file holds under \<open>id\<close>. The loader
  decodes into the zero value, and the decoder passes over the field tagged
  \<open>json:"-"\<close>.
\<close>

theorem load_leaves_Credentials_nil:
  assumes "NewConfigFromFile cb w confFile = Inr c"
  shows "Credentials c = None"
proof -
  from assms obtain conf where "json_Unmarshal cb conf (Config_zero cb) = Inr c"
    by (auto simp: NewConfigFromFile_def split: option.splits sum.splits)
  then obtain doc where "decode_Config cb doc (Config_zero cb) = Inr c"
    by (auto simp: json_Unmarshal_def split: sum.splits)
  hence "Credentials c = Credentials (Config_zero cb)"
    by (rule decode_Config_Credentials)
  thus ?thesis
    by (simp add: Config_zero_def)
qed

theorem load_leaves_Credentials_nil_witness:
  "\<exists>c. NewConfigFromFile ex ([], 0) ''good'' = Inr c \<and> Credentials c = None"
  using load_leaves_Credentials_nil [of ex "([], 0)" "''good''"] ex_load_good [of "([], 0)"]
  by simp

text \<open>
  The claim as it stands fails on the file \<open>good\<close>, whose \<open>id\<close> is an object with a
  certificate: the load succeeds, \<open>ID\<close> holds the object, and \<open>Credentials\<close> is \<open>nil\<close>.
\<close>

theorem load_with_ID_has_no_Credentials:
  "NewConfigFromFile ex ([], 0) ''good'' =
     Inr \<lparr>ZtAPI = ''https://ctrl'', ConfigTypes = Slice [''c1'', ''c2''] 2,
          ID = JObject [(''cert'', JString ''pem'')], Credentials = None\<rparr>"
  by (rule ex_load_good)

section \<open>Properties of context creation\<close>

lemma elems_append:
  "elems (append a b) = elems a @ elems b"
  by (simp add: append_def)

lemma ex_create_ConfigTypes:
  "ConfigTypes (fst (snd (ziti_NewContextWithOpts ex w x opts))) = ConfigTypes x"
  by (simp add: ex_def ex_create_def)

lemma ex_NewContextWithOpts_run:
  "NewContextWithOpts ex
        (Some \<lparr>ZtAPI = ''https://ctrl'', ConfigTypes = Slice [''a''] 1, ID = JObject [],
               Credentials = None\<rparr>)
        None
        \<lparr>contexts = Map.empty, collConfigTypes = Slice [''b''] 1, closed = [], logged = [],
          ext = ([], 0)\<rparr>
     = Some (Inr (Ref 0),
             \<lparr>ZtAPI = ''https://ctrl'', ConfigTypes = Slice [''a'', ''b''] 2, ID = JObject [],
               Credentials = None\<rparr>,
             \<lparr>contexts = [''identity-0'' \<mapsto> Ref 0], collConfigTypes = Slice [''b''] 1,
               closed = [], logged = [], ext = ([], 1)\<rparr>)"
  by (simp add: NewContextWithOpts_def ex_def ex_create_def ex_GetId_def append_def
      Add_Ref del: Add.simps)

text \<open>
  Claim C3, amended. \<open>NewContextWithOpts\<close> of the collection writes into the caller's
  \<open>Config\<close>: \<open>cfg.ConfigTypes\<close> is assigned \<open>append(cfg.ConfigTypes, set.ConfigTypes...)\<close>
  through the pointer, no copy is made, and the factory is handed that same \<open>Config\<close>:
  what the caller finds in it afterwards is what the factory has left there.
  When the call returns, with a context or with the factory's error, and the factory
  leaves \<open>ConfigTypes\<close> as it gets them, the caller's \<open>cfg.ConfigTypes\<close> are the old
  elements followed by those of the collection; they are the old ones only if the
  collection has none.
\<close>

theorem NewContextWithOpts_appends_to_cfg:
  assumes "NewContextWithOpts cb (Some c) options s = Some (r, c', s')"
    and "\<forall>w x opts. ConfigTypes (fst (snd (ziti_NewContextWithOpts cb w x opts))) = ConfigTypes x"
  shows "(\<exists>r' w. ziti_NewContextWithOpts cb (ext s)
                   (c\<lparr>ConfigTypes := append (ConfigTypes c) (collConfigTypes s)\<rparr>) options
                 = (r', c', w))
     \<and> ConfigTypes c' = append (ConfigTypes c) (collConfigTypes s)
     \<and> elems (ConfigTypes c') = elems (ConfigTypes c) @ elems (collConfigTypes s)
     \<and> (elems (ConfigTypes c') = elems (ConfigTypes c)) = (elems (collConfigTypes s) = [])"
proof -
  let ?m = "c\<lparr>ConfigTypes := append (ConfigTypes c) (collConfigTypes s)\<rparr>"
  from assms(1) have f: "\<exists>r' w. ziti_NewContextWithOpts cb (ext s) ?m options = (r', c', w)"
    by (auto simp: NewContextWithOpts_def split: prod.splits sum.splits option.splits)
  hence "c' = fst (snd (ziti_NewContextWithOpts cb (ext s) ?m options))"
    by auto
  with assms(2) have "ConfigTypes c' = ConfigTypes ?m"
    by simp
  hence "ConfigTypes c' = append (ConfigTypes c) (collConfigTypes s)
     \<and> elems (ConfigTypes c') = elems (ConfigTypes c) @ elems (collConfigTypes s)
     \<and> (elems (ConfigTypes c') = elems (ConfigTypes c)) = (elems (collConfigTypes s) = [])"
    by (simp add: elems_append)
  with f show ?thesis
    by blast
qed

theorem NewContextWithOpts_appends_to_cfg_witness:
  "\<exists>r c' s'. NewContextWithOpts ex
        (Some \<lparr>ZtAPI = ''https://ctrl'', ConfigTypes = Slice [''a''] 1, ID = JObject [],
               Credentials = None\<rparr>)
        None
        \<lparr>contexts = Map.empty, collConfigTypes = Slice [''b''] 1, closed = [], logged = [],
          ext = ([], 0)\<rparr> = Some (r, c', s')
     \<and> ConfigTypes c' = append (Slice [''a''] 1) (Slice [''b''] 1)
     \<and> elems (ConfigTypes c') = elems (Slice [''a''] 1) @ elems (Slice [''b''] 1)"
proof -
  let ?c = "\<lparr>ZtAPI = ''https://ctrl'', ConfigTypes = Slice [''a''] 1, ID = JObject [],
              Credentials = None :: unit option\<rparr>"
  let ?s = "\<lparr>contexts = Map.empty, collConfigTypes = Slice [''b''] 1, closed = [],
              logged = [], ext = ([] :: string, 0 :: nat)\<rparr>"
  obtain r c' s' where run: "NewContextWithOpts ex (Some ?c) None ?s = Some (r, c', s')"
    using ex_NewContextWithOpts_run by blast
  have "\<forall>w x opts. ConfigTypes (fst (snd (ziti_NewContextWithOpts ex w x opts))) = ConfigTypes x"
    using ex_create_ConfigTypes by blast
  with run have "ConfigTypes c' = append (ConfigTypes ?c) (collConfigTypes ?s)
     \<and> elems (ConfigTypes c') = elems (ConfigTypes ?c) @ elems (collConfigTypes ?s)"
    using NewContextWithOpts_appends_to_cfg [of ex ?c None ?s r c' s'] by blast
  with run show ?thesis
    by auto
qed

text \<open>
  The claim as it stands fails for a \<open>Config\<close> with the configuration type \<open>a\<close> handed to
  a collection with the configuration type \<open>b\<close>: after the call the caller's \<open>Config\<close>
  has the configuration types \<open>a\<close> and \<open>b\<close>.
\<close>

theorem NewContextWithOpts_mutates_caller_cfg:
  "map_option (fst \<circ> snd)
     (NewContextWithOpts ex
        (Some \<lparr>ZtAPI = ''https://ctrl'', ConfigTypes = Slice [''a''] 1, ID = JObject [],
               Credentials = None\<rparr>)
        None
        ((NewSdkCollection ([], 0))\<lparr>collConfigTypes := Slice [''b''] 1\<rparr>))
   = Some \<lparr>ZtAPI = ''https://ctrl'', ConfigTypes = Slice [''a'', ''b''] 2, ID = JObject [],
            Credentials = None\<rparr>"
  by (simp add: NewContextWithOpts_def ex_def ex_create_def ex_GetId_def append_def
      NewSdkCollection_def Add_Ref del: Add.simps)

section \<open>Properties of the encoding\<close>

lemma coerce_valid_from:
  "valid_from k s \<Longrightarrow> coerce k s = s"
  by (induction k s rule: coerce.induct) (auto split: option.splits)

lemma toValidUTF8_ValidString:
  "ValidString s \<Longrightarrow> toValidUTF8 s = s"
  by (simp add: ValidString_def toValidUTF8_def coerce_valid_from)

lemma decode_elems_strings:
  "decode_elems field (map (\<lambda>x. JString (t x)) xs) old = Inr (map t xs)"
  by (induction xs arbitrary: old) simp_all

lemma field_of_tags:
  "field_of cb ''ztAPI'' = Some F_ztAPI"
  "field_of cb ''configTypes'' = Some F_configTypes"
  "field_of cb ''id'' = Some F_id"
  by (simp_all add: field_of_def fields_def)

lemma decode_marshal_slice:
  "decode_slice field (marshal_slice a) NilSlice =
     Inr (case a of NilSlice \<Rightarrow> NilSlice
          | Slice cs n \<Rightarrow> Slice (map toValidUTF8 (elems (Slice cs n))) n)"
proof (cases a)
  case NilSlice
  then show ?thesis by simp
next
  case (Slice cs n)
  have len: "length (elems (Slice cs n)) = n"
    by simp
  show ?thesis
  proof (cases "elems (Slice cs n) = []")
    case True
    with len have "n = 0" by (metis list.size(3))
    with Slice show ?thesis by simp
  next
    case False
    with Slice len show ?thesis
      by (simp add: decode_elems_strings del: elems.simps)
  qed
qed

lemma decode_marshal_Config:
  assumes "decodeID cb (encodeID cb (ID c)) (zeroID cb) = Inr i"
  shows "decode_Config cb (marshal_Config cb c) (Config_zero cb) =
     Inr \<lparr>ZtAPI = toValidUTF8 (ZtAPI c),
          ConfigTypes = (case ConfigTypes c of NilSlice \<Rightarrow> NilSlice
             | Slice cs n \<Rightarrow> Slice (map toValidUTF8 (elems (Slice cs n))) n),
          ID = i, Credentials = None\<rparr>"
  using assms
  by (simp add: marshal_Config_def Config_zero_def decode_member_def field_of_tags
      decode_marshal_slice)

text \<open>
  Claim C8, amended. \<open>marshal_Config\<close> is the document of the text \<open>json.Marshal\<close>
  writes for a \<open>Config\<close>, strings as the decoder reads them back. Decoding it into the
  zero value succeeds whenever the identity decodes, and gives \<open>ZtAPI\<close> and each of the
  \<open>ConfigTypes\<close> coerced to valid UTF-8, every byte that is not part of an encoding
  replaced by U+FFFD; \<open>ConfigTypes\<close> are \<open>nil\<close> if and only if they were. So \<open>ZtAPI\<close>
  comes back as it was when it is valid UTF-8, and so do \<open>ConfigTypes\<close> when each of
  them is. The document has the members \<open>ztAPI\<close>, \<open>configTypes\<close> and \<open>id\<close> and no other,
  and it is the same whatever \<open>Credentials\<close> are.
\<close>

theorem marshal_then_unmarshal:
  assumes "decodeID cb (encodeID cb (ID c)) (zeroID cb) = Inr i"
  shows "\<exists>c'. decode_Config cb (marshal_Config cb c) (Config_zero cb) = Inr c'
     \<and> ZtAPI c' = toValidUTF8 (ZtAPI c)
     \<and> elems (ConfigTypes c') = map toValidUTF8 (elems (ConfigTypes c))
     \<and> (ConfigTypes c' = NilSlice) = (ConfigTypes c = NilSlice)
     \<and> (ValidString (ZtAPI c) \<longrightarrow> ZtAPI c' = ZtAPI c)
     \<and> ((\<forall>x \<in> set (elems (ConfigTypes c)). ValidString x)
          \<longrightarrow> elems (ConfigTypes c') = elems (ConfigTypes c))
     \<and> keys (marshal_Config cb c) = [''ztAPI'', ''configTypes'', ''id'']
     \<and> marshal_Config cb (c\<lparr>Credentials := cr\<rparr>) = marshal_Config cb c"
proof -
  let ?c' = "\<lparr>ZtAPI = toValidUTF8 (ZtAPI c),
          ConfigTypes = (case ConfigTypes c of NilSlice \<Rightarrow> NilSlice
             | Slice cs n \<Rightarrow> Slice (map toValidUTF8 (elems (Slice cs n))) n),
          ID = i, Credentials = None :: 'b option\<rparr>"
  have d: "decode_Config cb (marshal_Config cb c) (Config_zero cb) = Inr ?c'"
    using assms by (rule decode_marshal_Config)
  have len: "\<And>cs n. length (elems (Slice cs n)) = n"
    by simp
  have e: "elems (ConfigTypes ?c') = map toValidUTF8 (elems (ConfigTypes c))"
  proof (cases "ConfigTypes c")
    case NilSlice
    then show ?thesis by simp
  next
    case (Slice cs n)
    have "elems (Slice (map toValidUTF8 (elems (Slice cs n))) n)
            = map toValidUTF8 (elems (Slice cs n))"
      using len [of cs n] by (simp del: elems.simps add: elems.simps(2) [of "map toValidUTF8 (elems (Slice cs n))" n])
    with Slice show ?thesis by simp
  qed
  have n: "(ConfigTypes ?c' = NilSlice) = (ConfigTypes c = NilSlice)"
    by (cases "ConfigTypes c") simp_all
  have v: "ValidString (ZtAPI c) \<longrightarrow> ZtAPI ?c' = ZtAPI c"
    by (simp add: toValidUTF8_ValidString)
  have vs: "(\<forall>x \<in> set (elems (ConfigTypes c)). ValidString x)
          \<longrightarrow> elems (ConfigTypes ?c') = elems (ConfigTypes c)"
    unfolding e by (auto simp: toValidUTF8_ValidString intro: map_idI)
  have k: "keys (marshal_Config cb c) = [''ztAPI'', ''configTypes'', ''id'']"
    by (simp add: marshal_Config_def)
  have m: "marshal_Config cb (c\<lparr>Credentials := cr\<rparr>) = marshal_Config cb c"
    by (simp add: marshal_Config_def)
  have z: "ZtAPI ?c' = toValidUTF8 (ZtAPI c)"
    by simp
  show ?thesis
    using d z e n v vs k m by blast
qed

lemma toValidUTF8_invalid_byte:
  "toValidUTF8 [CHR 0xFF] = [CHR 0xEF, CHR 0xBF, CHR 0xBD]"
  by (simp add: toValidUTF8_def first_def RuneError_def char_of_def bit_Suc_0_iff)

theorem marshal_then_unmarshal_witness:
  "\<exists>c'. decode_Config ex
          (marshal_Config ex
             \<lparr>ZtAPI = ''https://ctrl'', ConfigTypes = Slice [''c1'', ''c2''] 2,
               ID = JObject [(''cert'', JString ''pem'')], Credentials = Some ()\<rparr>)
          (Config_zero ex) = Inr c'
     \<and> ZtAPI c' = ''https://ctrl''
     \<and> elems (ConfigTypes c') = [''c1'', ''c2'']
     \<and> ConfigTypes c' \<noteq> NilSlice
     \<and> keys (marshal_Config ex
             \<lparr>ZtAPI = ''https://ctrl'', ConfigTypes = Slice [''c1'', ''c2''] 2,
               ID = JObject [(''cert'', JString ''pem'')], Credentials = Some ()\<rparr>)
         = [''ztAPI'', ''configTypes'', ''id'']"
proof -
  let ?c = "\<lparr>ZtAPI = ''https://ctrl'', ConfigTypes = Slice [''c1'', ''c2''] 2,
               ID = JObject [(''cert'', JString ''pem'')], Credentials = Some ()\<rparr>"
  have i: "decodeID ex (encodeID ex (ID ?c)) (zeroID ex) = Inr (JObject [(''cert'', JString ''pem'')])"
    by (simp add: ex_def ex_decodeID_def)
  have v: "ValidString (ZtAPI ?c)"
    by (simp add: ValidString_def)
  have vs: "\<forall>x \<in> set (elems (ConfigTypes ?c)). ValidString x"
    by (simp add: ValidString_def)
  have e: "elems (ConfigTypes ?c) = [''c1'', ''c2'']"
    by simp
  have z: "ZtAPI ?c = ''https://ctrl''"
    by simp
  have n: "ConfigTypes ?c \<noteq> NilSlice"
    by simp
  from marshal_then_unmarshal [of ex ?c "JObject [(''cert'', JString ''pem'')]" None, OF i]
  obtain c' where c': "decode_Config ex (marshal_Config ex ?c) (Config_zero ex) = Inr c'"
    "ValidString (ZtAPI ?c) \<longrightarrow> ZtAPI c' = ZtAPI ?c"
    "(\<forall>x \<in> set (elems (ConfigTypes ?c)). ValidString x)
          \<longrightarrow> elems (ConfigTypes c') = elems (ConfigTypes ?c)"
    "(ConfigTypes c' = NilSlice) = (ConfigTypes ?c = NilSlice)"
    "keys (marshal_Config ex ?c) = [''ztAPI'', ''configTypes'', ''id'']"
    by blast
  from c'(2) v z have 1: "ZtAPI c' = ''https://ctrl''"
    by metis
  from c'(3) vs e have 2: "elems (ConfigTypes c') = [''c1'', ''c2'']"
    by metis
  from c'(4) n have 3: "ConfigTypes c' \<noteq> NilSlice"
    by metis
  from c'(1) 1 2 3 c'(5) show ?thesis
    by blast
qed

text \<open>
  The claim as it stands fails for a \<open>Config\<close> whose \<open>ZtAPI\<close> is the one byte \<open>0xFF\<close>,
  which is no UTF-8: it comes back as the three bytes of U+FFFD.
\<close>

theorem marshal_then_unmarshal_changes_ZtAPI:
  "decode_Config ex
     (marshal_Config ex
        \<lparr>ZtAPI = [CHR 0xFF], ConfigTypes = NilSlice, ID = JObject [], Credentials = None\<rparr>)
     (Config_zero ex)
   = Inr \<lparr>ZtAPI = [CHR 0xEF, CHR 0xBF, CHR 0xBD], ConfigTypes = NilSlice, ID = JObject [],
           Credentials = None\<rparr>"
  by (simp add: marshal_Config_def Config_zero_def decode_member_def field_of_tags ex_def
      ex_decodeID_def toValidUTF8_invalid_byte)

section \<open>Properties of \<open>NewSdkCollectionFromEnv\<close>\<close>

lemma registry_dom:
  "dom (registry g hs m) = dom m \<union> g ` set hs"
  by (induction hs arbitrary: m) auto

lemma registry_ran:
  "distinct (map g hs) \<Longrightarrow> g ` set hs \<inter> dom m = {}
     \<Longrightarrow> ran (registry g hs m) = ran m \<union> Ref ` set hs"
proof (induction hs arbitrary: m)
  case Nil
  then show ?case by simp
next
  case (Cons h hs)
  from Cons.prems(2) have n: "m (g h) = None"
    by auto
  hence r: "ran (m(g h \<mapsto> Ref h)) = insert (Ref h) (ran m)"
    by (rule ran_map_upd)
  from Cons.prems have d: "distinct (map g hs)"
    and i: "g ` set hs \<inter> dom (m(g h \<mapsto> Ref h)) = {}"
    by auto
  have "ran (registry g hs (m(g h \<mapsto> Ref h))) = ran (m(g h \<mapsto> Ref h)) \<union> Ref ` set hs"
    using d i by (rule Cons.IH)
  thus ?case
    unfolding registry.simps r by simp
qed

lemma NewContext_error:
  assumes "ziti_NewContextWithOpts cb (ext s)
             (c\<lparr>ConfigTypes := append (ConfigTypes c) (collConfigTypes s)\<rparr>) None
           = (Inl err, c', w)"
  shows "NewContext cb (Some c) s = Some (Inl err, c', s\<lparr>ext := w\<rparr>)"
  using assms by (simp add: NewContext_def NewContextWithOpts_def)

lemma NewContext_created:
  assumes "ziti_NewContextWithOpts cb (ext s)
             (c\<lparr>ConfigTypes := append (ConfigTypes c) (collConfigTypes s)\<rparr>) None
           = (Inr h, c', w)"
  shows "\<exists>s'. NewContext cb (Some c) s = Some (Inr (Ref h), c', s')
           \<and> contexts s' = (contexts s)(GetId cb h \<mapsto> Ref h) \<and> logged s' = logged s"
  using assms by (simp add: NewContext_def NewContextWithOpts_def Add_Ref del: Add.simps)

lemma identityFiles_loop_outcomes:
  "\<exists>s'. identityFiles_loop cb fs s = Some s'
     \<and> length (outcomes cb fs s) = length fs
     \<and> map (\<lambda>x. x = Skipped) (outcomes cb fs s) = map (\<lambda>f. f = []) fs
     \<and> logged s' = logged s @ failure_lines (outcomes cb fs s)
     \<and> contexts s' = registry (GetId cb) (created (outcomes cb fs s)) (contexts s)"
proof (induction fs arbitrary: s)
  case Nil
  then show ?case by simp
next
  case (Cons f fs)
  show ?case
  proof (cases "f = []")
    case True
    with Cons [of s] show ?thesis by simp
  next
    case False
    show ?thesis
    proof (cases "NewConfigFromFile cb (ext s) f")
      case (Inl err)
      with False Cons [of "logger_Errorf (failed_load_line f) s"] show ?thesis
        by (auto simp: logger_Errorf_def)
    next
      case (Inr cfg)
      obtain r c' w where fac: "ziti_NewContextWithOpts cb (ext s)
             (cfg\<lparr>ConfigTypes := append (ConfigTypes cfg) (collConfigTypes s)\<rparr>) None = (r, c', w)"
        by (metis prod_cases3)
      show ?thesis
      proof (cases r)
        case (Inl err)
        with fac have "NewContext cb (Some cfg) s = Some (Inl err, c', s\<lparr>ext := w\<rparr>)"
          by (simp add: NewContext_error)
        with False \<open>NewConfigFromFile cb (ext s) f = Inr cfg\<close>
          Cons [of "logger_Errorf (failed_create_line f) (s\<lparr>ext := w\<rparr>)"]
        show ?thesis
          by (auto simp: logger_Errorf_def)
      next
        case (Inr h)
        with fac obtain s1 where s1: "NewContext cb (Some cfg) s = Some (Inr (Ref h), c', s1)"
          "contexts s1 = (contexts s)(GetId cb h \<mapsto> Ref h)" "logged s1 = logged s"
          using NewContext_created [of cb s cfg h c' w] by blast
        with False \<open>NewConfigFromFile cb (ext s) f = Inr cfg\<close> Cons [of s1]
        show ?thesis
          by (auto simp: fun_upd_def)
      qed
    qed
  qed
qed

text \<open>
  Claim C6, amended. For every value of the variable \<open>NewSdkCollectionFromEnv\<close> returns
  a collection. Every entry of the list is gone through, none after a failure is left
  out; the empty entries, and only they, are skipped; the logger gets one line for each
  entry that fails to load or to create, in order, and nothing else. The collection
  holds, under the identity of each instance created, the last instance created with
  that identity: its keys are the identities of the instances created, it holds exactly
  the instances created when their identities differ, and it is empty when none was
  created.
\<close>

theorem NewSdkCollectionFromEnv_returns:
  "\<exists>s'. NewSdkCollectionFromEnv cb w v = Some s'
     \<and> length (env_outcomes cb w v) = length (identityFiles cb w v)
     \<and> map (\<lambda>x. x = Skipped) (env_outcomes cb w v) = map (\<lambda>f. f = []) (identityFiles cb w v)
     \<and> logged s' = failure_lines (env_outcomes cb w v)
     \<and> contexts s' = registry (GetId cb) (created (env_outcomes cb w v)) Map.empty
     \<and> dom (contexts s') = GetId cb ` set (created (env_outcomes cb w v))
     \<and> (distinct (map (GetId cb) (created (env_outcomes cb w v)))
          \<longrightarrow> ran (contexts s') = Ref ` set (created (env_outcomes cb w v)))
     \<and> (created (env_outcomes cb w v) = [] \<longrightarrow> contexts s' = Map.empty)"
proof -
  let ?fs = "identityFiles cb w v"
  let ?os = "env_outcomes cb w v"
  from identityFiles_loop_outcomes [of cb ?fs "NewSdkCollection w"]
  obtain s' where s': "identityFiles_loop cb ?fs (NewSdkCollection w) = Some s'"
    "length ?os = length ?fs"
    "map (\<lambda>x. x = Skipped) ?os = map (\<lambda>f. f = []) ?fs"
    "logged s' = logged (NewSdkCollection w) @ failure_lines ?os"
    "contexts s' = registry (GetId cb) (created ?os) (contexts (NewSdkCollection w))"
    unfolding env_outcomes_def by blast
  have 1: "NewSdkCollectionFromEnv cb w v = Some s'"
    using s'(1) by (simp add: NewSdkCollectionFromEnv_def)
  have 2: "logged s' = failure_lines ?os"
    using s'(4) by (simp add: NewSdkCollection_def)
  have 3: "contexts s' = registry (GetId cb) (created ?os) Map.empty"
    using s'(5) by (simp add: NewSdkCollection_def)
  have 4: "dom (contexts s') = GetId cb ` set (created ?os)"
    unfolding 3 by (simp add: registry_dom)
  have 5: "distinct (map (GetId cb) (created ?os))
          \<longrightarrow> ran (contexts s') = Ref ` set (created ?os)"
    unfolding 3 by (simp add: registry_ran)
  have 6: "created ?os = [] \<longrightarrow> contexts s' = Map.empty"
    unfolding 3 by simp
  show ?thesis
    using 1 s'(2) s'(3) 2 3 4 5 6 by blast
qed

lemma ex_fields:
  "Getenv ex = ex_Getenv"
  "GetId ex = ex_GetId"
  by (simp_all add: ex_def)

lemma ex_identityFiles:
  "identityFiles ex (''good;missing;bad;good2'', 0) ''ZITI_IDENTITIES''
     = [''good'', ''missing'', ''bad'', ''good2'']"
  "identityFiles ex ('';noapi;;missing'', 0) ''ZITI_IDENTITIES''
     = ['''', ''noapi'', '''', ''missing'']"
  by (simp_all add: identityFiles_def ex_def ex_Getenv_def)

lemma ex_NewContext:
  "ZtAPI c \<noteq> [] \<Longrightarrow>
     NewContext ex (Some c)
        \<lparr>contexts = m, collConfigTypes = NilSlice, closed = cl, logged = lg, ext = (e, n)\<rparr> =
       Some (Inr (Ref n), c,
             \<lparr>contexts = m(ex_GetId n \<mapsto> Ref n), collConfigTypes = NilSlice,
               closed = (case m (ex_GetId n) of
                           Some (Ref q) \<Rightarrow> if q = n then cl else cl @ [q]
                         | _ \<Rightarrow> cl),
               logged = lg, ext = (e, Suc n)\<rparr>)"
  "ZtAPI c = [] \<Longrightarrow>
     NewContext ex (Some c)
        \<lparr>contexts = m, collConfigTypes = NilSlice, closed = cl, logged = lg, ext = (e, n)\<rparr> =
       Some (Inl (Errorf ''no controller address''), c,
             \<lparr>contexts = m, collConfigTypes = NilSlice, closed = cl, logged = lg, ext = (e, n)\<rparr>)"
  by (auto simp: NewContext_def NewContextWithOpts_def ex_def ex_create_def append_def
      Add_Ref simp del: Add.simps split: option.splits Context.splits)

lemma ex_env_outcomes:
  "env_outcomes ex (''good;missing;bad;good2'', 0) ''ZITI_IDENTITIES''
     = [Created 0, LoadFailed ''missing'', LoadFailed ''bad'', Created 1]"
  "env_outcomes ex ('';noapi;;missing'', 0) ''ZITI_IDENTITIES''
     = [Skipped, CreateFailed ''noapi'', Skipped, LoadFailed ''missing'']"
  by (simp_all add: env_outcomes_def ex_identityFiles NewSdkCollection_def ex_load_good
      ex_load_good2 ex_load_noapi ex_load_missing ex_load_bad ex_NewContext logger_Errorf_def)

theorem NewSdkCollectionFromEnv_returns_witness:
  "(\<exists>s'. NewSdkCollectionFromEnv ex (''good;missing;bad;good2'', 0) ''ZITI_IDENTITIES'' = Some s'
      \<and> logged s' = [failed_load_line ''missing'', failed_load_line ''bad'']
      \<and> contexts s' = [''identity-0'' \<mapsto> Ref 0, ''identity-1'' \<mapsto> Ref 1]
      \<and> dom (contexts s') = {''identity-0'', ''identity-1''}
      \<and> ran (contexts s') = {Ref 0, Ref 1})
   \<and> (\<exists>s'. NewSdkCollectionFromEnv ex ('';noapi;;missing'', 0) ''ZITI_IDENTITIES'' = Some s'
      \<and> logged s' = [failed_create_line ''noapi'', failed_load_line ''missing'']
      \<and> contexts s' = Map.empty)"
proof -
  have g: "GetId ex = ex_GetId"
    by (simp add: ex_def)
  let ?w = "(''good;missing;bad;good2'', 0 :: nat)"
  from NewSdkCollectionFromEnv_returns [of ex ?w "''ZITI_IDENTITIES''"]
  obtain s' where a: "NewSdkCollectionFromEnv ex ?w ''ZITI_IDENTITIES'' = Some s'"
    "logged s' = failure_lines (env_outcomes ex ?w ''ZITI_IDENTITIES'')"
    "contexts s' = registry (GetId ex) (created (env_outcomes ex ?w ''ZITI_IDENTITIES'')) Map.empty"
    "dom (contexts s') = GetId ex ` set (created (env_outcomes ex ?w ''ZITI_IDENTITIES''))"
    "distinct (map (GetId ex) (created (env_outcomes ex ?w ''ZITI_IDENTITIES'')))
       \<longrightarrow> ran (contexts s') = Ref ` set (created (env_outcomes ex ?w ''ZITI_IDENTITIES''))"
    by blast
  have r: "ran (contexts s') = {Ref 0, Ref 1}"
    using a(5) by (simp add: ex_env_outcomes g ex_GetId_def insert_commute)
  have l: "logged s' = [failed_load_line ''missing'', failed_load_line ''bad'']"
    using a(2) by (simp add: ex_env_outcomes)
  have c: "contexts s' = [''identity-0'' \<mapsto> Ref 0, ''identity-1'' \<mapsto> Ref 1]"
    using a(3) by (simp add: ex_env_outcomes g ex_GetId_def)
  have d: "dom (contexts s') = {''identity-0'', ''identity-1''}"
    using a(4) by (simp add: ex_env_outcomes g ex_GetId_def insert_commute)
  let ?v = "('';noapi;;missing'', 0 :: nat)"
  from NewSdkCollectionFromEnv_returns [of ex ?v "''ZITI_IDENTITIES''"]
  obtain t' where b: "NewSdkCollectionFromEnv ex ?v ''ZITI_IDENTITIES'' = Some t'"
    "logged t' = failure_lines (env_outcomes ex ?v ''ZITI_IDENTITIES'')"
    "contexts t' = registry (GetId ex) (created (env_outcomes ex ?v ''ZITI_IDENTITIES'')) Map.empty"
    by blast
  have l2: "logged t' = [failed_create_line ''noapi'', failed_load_line ''missing'']"
    using b(2) by (simp add: ex_env_outcomes)
  have c2: "contexts t' = Map.empty"
    using b(3) by (simp add: ex_env_outcomes)
  from a(1) l c d r b(1) l2 c2 show ?thesis
    by blast
qed

lemma ex_env_same_identity:
  "NewSdkCollectionFromEnv ex (''good;good2;good'', 0) ''ZITI_IDENTITIES'' =
     Some \<lparr>contexts = [''identity-0'' \<mapsto> Ref 0, ''identity-1'' \<mapsto> Ref 2],
            collConfigTypes = NilSlice, closed = [1], logged = [],
            ext = (''good;good2;good'', 3)\<rparr>"
  by (simp add: NewSdkCollectionFromEnv_def identityFiles_def ex_fields ex_Getenv_def
      NewSdkCollection_def ex_load_good ex_load_good2 ex_NewContext ex_GetId_def
      numeral_3_eq_3 numeral_2_eq_2)

text \<open>
  The claim as it stands fails when two instances created have the same identity. The
  three entries \<open>good\<close>, \<open>good2\<close> and \<open>good\<close> all load and create, the instances 0, 1
  and 2; the instances 1 and 2 have the same identity. Nothing is logged, and the
  collection holds the instances 0 and 2: instance 1 is closed and no longer there.
\<close>

theorem NewSdkCollectionFromEnv_drops_created_instance:
  "env_outcomes ex (''good;good2;good'', 0) ''ZITI_IDENTITIES''
     = [Created 0, Created 1, Created 2]
   \<and> map_option logged
         (NewSdkCollectionFromEnv ex (''good;good2;good'', 0) ''ZITI_IDENTITIES'') = Some []
   \<and> map_option (ran \<circ> contexts)
         (NewSdkCollectionFromEnv ex (''good;good2;good'', 0) ''ZITI_IDENTITIES'')
       = Some {Ref 0, Ref 2}
   \<and> map_option closed
         (NewSdkCollectionFromEnv ex (''good;good2;good'', 0) ''ZITI_IDENTITIES'') = Some [1]"
proof -
  have o: "env_outcomes ex (''good;good2;good'', 0) ''ZITI_IDENTITIES''
     = [Created 0, Created 1, Created 2]"
    by (simp add: env_outcomes_def identityFiles_def ex_fields ex_Getenv_def
        NewSdkCollection_def ex_load_good ex_load_good2 ex_NewContext)
  have r: "ran [''identity-0'' \<mapsto> Ref 0, ''identity-1'' \<mapsto> Ref 2] = {Ref 0, Ref 2}"
    by (simp add: ran_map_upd insert_commute)
  show ?thesis
    by (simp add: o ex_env_same_identity r)
qed

end
